theory Spec2Isabelle
  imports Complex_Main "HOL-Library.Multiset" "HOL-Library.Product_Lexorder"
begin

section \<open>Data model\<close>

text \<open>
  The facility table of \<open>app.py\<close> is a pandas frame read from a CSV file with the
  eight columns listed in \<open>load_data\<close>. A cell of a CSV column can be missing (pandas
  stores NaN there), so a cell is an option: \<open>None\<close> is the missing cell. Numbers are
  reals: rounding, NaN and the infinities of the float type are outside this model.
\<close>

type_synonym text_cell = "string option"
type_synonym num_cell = "real option"

record facility =
  facility_name :: text_cell
  facility_level :: text_cell
  ownership :: text_cell
  ward :: text_cell
  lga :: text_cell
  state :: text_cell
  latitude :: num_cell
  longitude :: num_cell

text \<open>A row of \<open>candidates\<close> after the column \<open>geo_dist\<close> has been added.\<close>

type_synonym ranked = "facility \<times> real"

definition geo_dist :: "ranked \<Rightarrow> real" where
  "geo_dist row = snd row"

section \<open>Data loading\<close>

text \<open>
  \<open>load_data\<close>: \<open>pd.read_csv\<close> either raises (\<open>None\<close> here) or yields the rows; the
  rows with a missing latitude or longitude are dropped (\<open>dropna\<close> on these two columns),
  and any exception yields the empty frame. Nothing else is tested.
\<close>

definition dropna :: "facility list \<Rightarrow> facility list" where
  "dropna df = filter (\<lambda>row. latitude row \<noteq> None \<and> longitude row \<noteq> None) df"

definition load_data :: "facility list option \<Rightarrow> facility list" where
  "load_data read_csv = (case read_csv of None \<Rightarrow> [] | Some df \<Rightarrow> dropna df)"

section \<open>Helper functions\<close>

subsection \<open>Geocoding\<close>

text \<open>
  The geocoding service is outside the program: \<open>geolocator.geocode\<close> raises, returns
  \<open>None\<close>, or returns a location. \<open>get_coordinates\<close> returns the tuple
  \<open>(None, None)\<close>, modelled as \<open>None\<close>, or the tuple of latitude and longitude.
\<close>

datatype geocode_reply = GeocodeRaises | NoLocation | Location real real

definition get_coordinates :: "(string \<Rightarrow> geocode_reply) \<Rightarrow> string \<Rightarrow> (real \<times> real) option" where
  "get_coordinates geocode address =
     (case geocode (address @ '', Nigeria'') of
        GeocodeRaises \<Rightarrow> None
      | NoLocation \<Rightarrow> None
      | Location lat lon \<Rightarrow> Some (lat, lon))"

subsection \<open>Routing\<close>

text \<open>
  \<open>client.directions\<close> raises or returns the decoded JSON document of the routing
  service. The subscripts of \<open>get_drive_time\<close> follow Python: a missing key, an empty
  list and a value of the wrong type raise, which is \<open>None\<close> here. An object holds the
  items of the decoded dict.
\<close>

datatype json =
    JNull
  | JBool bool
  | JNum real
  | JStr string
  | JArr "json list"
  | JObj "(string \<times> json) list"

datatype directions_reply = DirectionsRaises | DirectionsJson json

fun getitem :: "json \<Rightarrow> string \<Rightarrow> json option" where
  "getitem (JObj items) k = map_of items k"
| "getitem _ k = None"

fun getitem0 :: "json \<Rightarrow> json option" where
  "getitem0 (JArr (x # xs)) = Some x"
| "getitem0 (JStr (c # cs)) = Some (JStr [c])"
| "getitem0 _ = None"

fun truediv :: "json \<Rightarrow> real \<Rightarrow> real option" where
  "truediv (JNum x) d = Some (x / d)"
| "truediv (JBool b) d = Some ((if b then 1 else 0) / d)"
| "truediv _ d = None"

definition route_summary :: "json \<Rightarrow> json option" where
  "route_summary routes =
     (case getitem routes ''features'' of None \<Rightarrow> None
      | Some features \<Rightarrow>
     (case getitem0 features of None \<Rightarrow> None
      | Some feature \<Rightarrow>
     (case getitem feature ''properties'' of None \<Rightarrow> None
      | Some properties \<Rightarrow> getitem properties ''summary'')))"

type_synonym lonlat = "num_cell \<times> num_cell"

text \<open>Lines 77 to 80: the subscripts and the two divisions, inside the \<open>try\<close>.\<close>

definition drive_numbers :: "json \<Rightarrow> (real \<times> real) option" where
  "drive_numbers routes =
     (case route_summary routes of None \<Rightarrow> None
      | Some summary \<Rightarrow>
     (case getitem summary ''duration'' of None \<Rightarrow> None
      | Some duration \<Rightarrow>
     (case truediv duration 60 of None \<Rightarrow> None
      | Some duration_mins \<Rightarrow>
     (case getitem summary ''distance'' of None \<Rightarrow> None
      | Some distance \<Rightarrow>
     (case truediv distance 1000 of None \<Rightarrow> None
      | Some distance_km \<Rightarrow> Some (duration_mins, distance_km))))))"

text \<open>
  \<open>get_drive_time\<close>: the bare \<open>except\<close> turns every exception of the call and of the
  decoding into the tuple \<open>(None, None)\<close>, modelled as \<open>None\<close>.
\<close>

definition get_drive_time ::
  "(real \<times> real \<Rightarrow> lonlat \<Rightarrow> string \<Rightarrow> directions_reply) \<Rightarrow>
   real \<times> real \<Rightarrow> lonlat \<Rightarrow> string \<Rightarrow> (real \<times> real) option" where
  "get_drive_time directions start_coords end_coords api_key =
     (case directions start_coords end_coords api_key of
        DirectionsRaises \<Rightarrow> None
      | DirectionsJson routes \<Rightarrow> drive_numbers routes)"

section \<open>Emergency finder\<close>

subsection \<open>Ranking\<close>

text \<open>
  \<open>geodesic\<close> (geopy) makes a point of each pair of coordinates before it measures:
  it raises \<open>ValueError\<close> for a latitude outside the range from -90 to 90 and for a
  coordinate that is no finite number (a missing cell), and wraps the longitude. For two
  accepted points the distance in kilometres is the parameter \<open>geodesic\<close>. \<open>None\<close> is the
  exception.
\<close>

definition accepted_latitude :: "real \<Rightarrow> bool" where
  "accepted_latitude lat \<longleftrightarrow> - 90 \<le> lat \<and> lat \<le> 90"

definition geodesic_km ::
  "(real \<times> real \<Rightarrow> real \<times> real \<Rightarrow> real) \<Rightarrow> real \<times> real \<Rightarrow> num_cell \<times> num_cell \<Rightarrow> real option" where
  "geodesic_km geodesic u p =
     (case p of
        (Some lat, Some lon) \<Rightarrow>
          if accepted_latitude (fst u) \<and> accepted_latitude lat
          then Some (geodesic u (lat, lon)) else None
      | _ \<Rightarrow> None)"

text \<open>The rows whose point \<open>geodesic\<close> accepts.\<close>

definition accepted_row :: "facility \<Rightarrow> bool" where
  "accepted_row row =
     (case (latitude row, longitude row) of
        (Some lat, Some lon) \<Rightarrow> accepted_latitude lat
      | _ \<Rightarrow> False)"

text \<open>
  Lines 211 to 214: \<open>apply\<close> computes the distance row by row, in no \<open>try\<close>; the first
  row for which \<open>geodesic\<close> raises ends the handler with that exception.
\<close>

fun with_geo_dist ::
  "(real \<times> real \<Rightarrow> real \<times> real \<Rightarrow> real) \<Rightarrow> real \<times> real \<Rightarrow> facility list \<Rightarrow> ranked list option" where
  "with_geo_dist geodesic u [] = Some []"
| "with_geo_dist geodesic u (row # candidates) =
     (case geodesic_km geodesic u (latitude row, longitude row) of
        None \<Rightarrow> None
      | Some km \<Rightarrow>
          (case with_geo_dist geodesic u candidates of
             None \<Rightarrow> None
           | Some df \<Rightarrow> Some ((row, km) # df)))"

text \<open>
  \<open>sort_values('geo_dist')\<close> is called with the default algorithm and asks for no stable
  kind: the rows come back in ascending order of the column, and the order among rows
  of equal \<open>geo_dist\<close> is the routine's own. That order is the parameter \<open>tie\<close>, any
  ranking of the rows of the frame; rows equal in both keep their order.
\<close>

definition sort_values :: "(ranked list \<Rightarrow> ranked \<Rightarrow> nat) \<Rightarrow> ranked list \<Rightarrow> ranked list" where
  "sort_values tie df = sort_key (\<lambda>row. (geo_dist row, tie df row)) df"

text \<open>
  Line 216, \<open>head(5)\<close> of the sorted frame. The handler evaluates lines 211 to 216 only
  when \<open>candidates\<close> is not empty (line 208).
\<close>

definition top_5 ::
  "(ranked list \<Rightarrow> ranked \<Rightarrow> nat) \<Rightarrow> (real \<times> real \<Rightarrow> real \<times> real \<Rightarrow> real) \<Rightarrow>
   real \<times> real \<Rightarrow> facility list \<Rightarrow> ranked list option" where
  "top_5 tie geodesic u candidates =
     (case with_geo_dist geodesic u candidates of
        None \<Rightarrow> None
      | Some df \<Rightarrow> Some (take 5 (sort_values tie df)))"

subsection \<open>Region filter\<close>

text \<open>\<open>data[data['state'] == confirm_state]\<close>: a missing state equals no string.\<close>

definition state_rows :: "facility list \<Rightarrow> string \<Rightarrow> facility list" where
  "state_rows data confirm_state = filter (\<lambda>row. state row = Some confirm_state) data"

subsection \<open>Drive time per row\<close>

text \<open>
  Lines 221 to 227: the routing call is made only for a non-empty key (the text input
  yields the empty string when nothing was typed), with longitude first.
\<close>

definition drive_lookup ::
  "(real \<times> real \<Rightarrow> lonlat \<Rightarrow> string \<Rightarrow> directions_reply) \<Rightarrow> string \<Rightarrow>
   real \<times> real \<Rightarrow> ranked \<Rightarrow> (real \<times> real) option" where
  "drive_lookup directions user_api_key u row =
     (if user_api_key \<noteq> []
      then get_drive_time directions (snd u, fst u)
             (longitude (fst row), latitude (fst row)) user_api_key
      else None)"

text \<open>
  What one expander shows: the drive time and drive distance when \<open>drive_mins\<close> is
  truthy (present and not zero), else the straight-line distance of the row.
\<close>

datatype metrics = DriveMetrics real real | StraightLine real

record card =
  card_row :: ranked
  card_metrics :: metrics

definition show_row ::
  "(real \<times> real \<Rightarrow> lonlat \<Rightarrow> string \<Rightarrow> directions_reply) \<Rightarrow> string \<Rightarrow>
   real \<times> real \<Rightarrow> ranked \<Rightarrow> card" where
  "show_row directions user_api_key u row =
     \<lparr>card_row = row,
      card_metrics =
        (case drive_lookup directions user_api_key u row of
           None \<Rightarrow> StraightLine (geo_dist row)
         | Some (drive_mins, drive_km) \<Rightarrow>
             if drive_mins \<noteq> 0 then DriveMetrics drive_mins drive_km
             else StraightLine (geo_dist row))\<rparr>"

subsection \<open>The handler of the button\<close>

text \<open>
  What the page shows: the whole interface sits under \<open>if not data.empty\<close>, the handler
  under \<open>if find_btn and user_loc\<close>. The two calls of \<open>st.error\<close> in the handler are
  \<open>AddressNotFound\<close> and \<open>NoFacilitiesFound\<close>; \<open>Found\<close> holds the located point and
  the expanders in the order shown; \<open>ValueErrorRaised\<close> is the exception of the distance
  computation, which nothing catches.
\<close>

datatype screen =
    LoadingDatabase
  | NotRun
  | AddressNotFound
  | NoFacilitiesFound
  | ValueErrorRaised
  | Found "real \<times> real" "card list"

definition find_closest_help ::
  "(string \<Rightarrow> geocode_reply) \<Rightarrow>
   (real \<times> real \<Rightarrow> lonlat \<Rightarrow> string \<Rightarrow> directions_reply) \<Rightarrow>
   (ranked list \<Rightarrow> ranked \<Rightarrow> nat) \<Rightarrow>
   (real \<times> real \<Rightarrow> real \<times> real \<Rightarrow> real) \<Rightarrow>
   facility list \<Rightarrow> bool \<Rightarrow> string \<Rightarrow> string \<Rightarrow> string \<Rightarrow> screen" where
  "find_closest_help geocode directions tie geodesic data
       find_btn user_loc confirm_state user_api_key =
     (if data = [] then LoadingDatabase
      else if find_btn \<and> user_loc \<noteq> [] then
        (case get_coordinates geocode (user_loc @ '', '' @ confirm_state) of
           None \<Rightarrow> AddressNotFound
         | Some (u_lat, u_lon) \<Rightarrow>
             if u_lat \<noteq> 0 then
               (let candidates = state_rows data confirm_state in
                if candidates = [] then NoFacilitiesFound
                else
                  (case top_5 tie geodesic (u_lat, u_lon) candidates of
                     None \<Rightarrow> ValueErrorRaised
                   | Some rows \<Rightarrow>
                       Found (u_lat, u_lon)
                         (map (show_row directions user_api_key (u_lat, u_lon)) rows)))
             else AddressNotFound)
      else NotRun)"

section \<open>Reply format of the routing service\<close>





section \<open>Sample values\<close>

text \<open>
  Concrete values at which the definitions are evaluated below. \<open>sample_geodesic\<close> only
  stands in for the distance of two accepted points there (the sum of the two coordinate
  differences); the general statements hold for every distance function.
  \<open>route_reply\<close> is a reply of the shape \<open>get_drive_time\<close> reads.
\<close>

definition clinic :: "string \<Rightarrow> string \<Rightarrow> num_cell \<Rightarrow> num_cell \<Rightarrow> facility" where
  "clinic name st lat lon =
     \<lparr>facility_name = Some name, facility_level = Some ''Primary'', ownership = Some ''Public'',
      ward = None, lga = None, state = Some st, latitude = lat, longitude = lon\<rparr>"

definition sample_data :: "facility list" where
  "sample_data =
     [clinic ''A'' ''Oyo'' (Some 7.40) (Some 3.90),
      clinic ''B'' ''Oyo'' (Some 7.38) (Some 3.85),
      clinic ''C'' ''Oyo'' (Some 7.50) (Some 4.00)]"

definition sample_geodesic :: "real \<times> real \<Rightarrow> real \<times> real \<Rightarrow> real" where
  "sample_geodesic u p = \<bar>fst p - fst u\<bar> + \<bar>snd p - snd u\<bar>"

definition route_reply :: "json \<Rightarrow> json \<Rightarrow> json" where
  "route_reply duration distance =
     JObj [(''type'', JStr ''FeatureCollection''),
           (''features'',
            JArr [JObj [(''properties'',
                         JObj [(''summary'',
                                JObj [(''distance'', distance), (''duration'', duration)])])]])]"

text \<open>
  The coordinate ranges of the Earth: latitude within 90 degrees of the equator,
  longitude within 180 degrees of the prime meridian, both present.
\<close>

definition valid_coordinates :: "facility \<Rightarrow> bool" where
  "valid_coordinates row =
     (case (latitude row, longitude row) of
        (Some lat, Some lon) \<Rightarrow> - 90 \<le> lat \<and> lat \<le> 90 \<and> - 180 \<le> lon \<and> lon \<le> 180
      | _ \<Rightarrow> False)"

section \<open>Properties\<close>

subsection \<open>Geocoding failures\<close>

text \<open>
  C5. When the geocoding call raises (a provider error or a timeout) or finds nothing,
  \<open>get_coordinates\<close> returns the pair of \<open>None\<close> without raising, and the handler shows
  "Address not found": no candidate is looked up or listed.
\<close>

theorem geocode_failure_address_not_found:
  assumes "data \<noteq> []" and "find_btn" and "user_loc \<noteq> []"
    and "geocode ((user_loc @ '', '' @ confirm_state) @ '', Nigeria'') = GeocodeRaises
       \<or> geocode ((user_loc @ '', '' @ confirm_state) @ '', Nigeria'') = NoLocation"
  shows "get_coordinates geocode (user_loc @ '', '' @ confirm_state) = None
       \<and> find_closest_help geocode directions tie geodesic data
            find_btn user_loc confirm_state user_api_key = AddressNotFound"
proof -
  from assms(4)
  have none: "get_coordinates geocode (user_loc @ '', '' @ confirm_state) = None"
    unfolding get_coordinates_def by auto
  with assms(1-3) show ?thesis
    unfolding find_closest_help_def by simp
qed

theorem geocode_failure_address_not_found_witness:
  "get_coordinates (\<lambda>q. NoLocation) (''Xyzabc123'' @ '', '' @ ''Oyo'') = None
   \<and> find_closest_help (\<lambda>q. NoLocation) (\<lambda>s e k. DirectionsRaises) (\<lambda>df row. 0)
        sample_geodesic sample_data True ''Xyzabc123'' ''Oyo'' [] = AddressNotFound"
  using geocode_failure_address_not_found
    [of sample_data True "''Xyzabc123''" "\<lambda>q. NoLocation" "''Oyo''"
        "\<lambda>s e k. DirectionsRaises" "\<lambda>df row. 0" sample_geodesic "[]"]
  by (simp add: sample_data_def)

text \<open>
  C9. A geocoding reply whose latitude is exactly 0 is a success of \<open>get_coordinates\<close>,
  but the handler tests \<open>if u_lat\<close>, which is false for 0: it shows "Address not found"
  and does not rank.
\<close>

theorem zero_latitude_address_not_found:
  assumes "data \<noteq> []" and "find_btn" and "user_loc \<noteq> []"
    and "geocode ((user_loc @ '', '' @ confirm_state) @ '', Nigeria'') = Location 0 u_lon"
  shows "get_coordinates geocode (user_loc @ '', '' @ confirm_state) = Some (0, u_lon)
       \<and> find_closest_help geocode directions tie geodesic data
            find_btn user_loc confirm_state user_api_key = AddressNotFound"
proof -
  from assms(4)
  have "get_coordinates geocode (user_loc @ '', '' @ confirm_state) = Some (0, u_lon)"
    unfolding get_coordinates_def by simp
  with assms(1-3) show ?thesis
    unfolding find_closest_help_def by simp
qed

theorem zero_latitude_address_not_found_witness:
  "get_coordinates (\<lambda>q. Location 0 9) (''Equator'' @ '', '' @ ''Oyo'') = Some (0, 9)
   \<and> find_closest_help (\<lambda>q. Location 0 9) (\<lambda>s e k. DirectionsRaises) (\<lambda>df row. 0)
        sample_geodesic sample_data True ''Equator'' ''Oyo'' [] = AddressNotFound"
  using zero_latitude_address_not_found
    [of sample_data True "''Equator''" "\<lambda>q. Location 0 9" "''Oyo''" 9
        "\<lambda>s e k. DirectionsRaises" "\<lambda>df row. 0" sample_geodesic "[]"]
  by (simp add: sample_data_def)

subsection \<open>Region filter\<close>

text \<open>
  C6. The candidates are exactly the rows of the table whose state is the chosen string
  (equality of strings, so letter case counts), and once the address is located the
  handler shows "No facilities found in this state" exactly when no row matches.
\<close>

theorem scoped_lookup_exact:
  "(row \<in> set (state_rows data region) \<longleftrightarrow> row \<in> set data \<and> state row = Some region)
   \<and> (data \<noteq> [] \<and> find_btn \<and> user_loc \<noteq> []
        \<and> geocode ((user_loc @ '', '' @ region) @ '', Nigeria'') = Location u_lat u_lon
        \<and> u_lat \<noteq> 0 \<longrightarrow>
      (find_closest_help geocode directions tie geodesic data
          find_btn user_loc region user_api_key = NoFacilitiesFound
       \<longleftrightarrow> (\<forall>row \<in> set data. state row \<noteq> Some region)))"
proof -
  have mem: "row \<in> set (state_rows data region) \<longleftrightarrow> row \<in> set data \<and> state row = Some region"
    by (simp add: state_rows_def)
  have empty: "state_rows data region = [] \<longleftrightarrow> (\<forall>row \<in> set data. state row \<noteq> Some region)"
    by (simp add: state_rows_def filter_empty_conv)
  have "find_closest_help geocode directions tie geodesic data
          find_btn user_loc region user_api_key = NoFacilitiesFound
        \<longleftrightarrow> (\<forall>row \<in> set data. state row \<noteq> Some region)"
    if "data \<noteq> []" "find_btn" "user_loc \<noteq> []"
      "geocode ((user_loc @ '', '' @ region) @ '', Nigeria'') = Location u_lat u_lon"
      "u_lat \<noteq> 0"
  proof -
    from that(4)
    have "get_coordinates geocode (user_loc @ '', '' @ region) = Some (u_lat, u_lon)"
      unfolding get_coordinates_def by simp
    with that(1,2,3,5) empty show ?thesis
      unfolding find_closest_help_def by (simp add: Let_def split: option.split)
  qed
  with mem show ?thesis by blast
qed

theorem scoped_lookup_exact_witness:
  "state_rows (clinic ''D'' ''oyo'' (Some 7) (Some 3) # sample_data) ''Oyo'' = sample_data
   \<and> find_closest_help (\<lambda>q. Location 7.39 3.89) (\<lambda>s e k. DirectionsRaises)
        (\<lambda>df row. 0) sample_geodesic sample_data True ''Bodija'' ''Kebbi'' []
       = NoFacilitiesFound"
proof -
  have rows: "state_rows (clinic ''D'' ''oyo'' (Some 7) (Some 3) # sample_data) ''Oyo''
                = sample_data"
    by (simp add: state_rows_def sample_data_def clinic_def)
  have none: "\<forall>row \<in> set sample_data. state row \<noteq> Some ''Kebbi''"
    by (simp add: sample_data_def clinic_def)
  have "find_closest_help (\<lambda>q. Location 7.39 3.89) (\<lambda>s e k. DirectionsRaises)
          (\<lambda>df row. 0) sample_geodesic sample_data True ''Bodija'' ''Kebbi'' []
        = NoFacilitiesFound"
    using scoped_lookup_exact
      [of "clinic ''A'' ''Oyo'' (Some 7.40) (Some 3.90)" sample_data "''Kebbi''" True
          "''Bodija''" "\<lambda>q. Location 7.39 3.89" "7.39" "3.89"
          "\<lambda>s e k. DirectionsRaises" "\<lambda>df row. 0" sample_geodesic "[]"]
      none
    by (simp add: sample_data_def)
  with rows show ?thesis by simp
qed

subsection \<open>Drive-time refinement\<close>

lemma drive_lookup_none_card:
  "drive_lookup directions user_api_key u row = None \<Longrightarrow>
     show_row directions user_api_key u row
       = \<lparr>card_row = row, card_metrics = StraightLine (geo_dist row)\<rparr>"
  unfolding show_row_def by simp





text \<open>
  C8. With no key typed in, the routing service is not called: the drive-time lookup of
  a row yields nothing, whatever the service would answer, and the expander shows the
  straight-line distance of the row.
\<close>

theorem drive_lookup_no_key:
  "drive_lookup directions [] u row = None
   \<and> show_row directions [] u row
       = \<lparr>card_row = row, card_metrics = StraightLine (geo_dist row)\<rparr>"
proof -
  have "drive_lookup directions [] u row = None"
    unfolding drive_lookup_def by simp
  then show ?thesis by (simp add: drive_lookup_none_card)
qed




text \<open>
  C10. When a key is given and the routing reply is well formed with a duration of
  exactly 0 seconds, \<open>get_drive_time\<close> returns 0 minutes with the distance, but the
  handler tests \<open>if drive_mins\<close>, which is false for 0: the expander shows the
  straight-line distance only and the drive distance is not shown.
\<close>

theorem zero_duration_shows_straight_line:
  assumes "user_api_key \<noteq> []"
    and "directions (snd u, fst u) (longitude (fst row), latitude (fst row)) user_api_key
           = DirectionsJson routes"
    and "route_summary routes = Some summary"
    and "getitem summary ''duration'' = Some (JNum 0)"
    and "getitem summary ''distance'' = Some (JNum metres)"
  shows "get_drive_time directions (snd u, fst u) (longitude (fst row), latitude (fst row))
           user_api_key = Some (0, metres / 1000)
       \<and> show_row directions user_api_key u row
           = \<lparr>card_row = row, card_metrics = StraightLine (geo_dist row)\<rparr>"
proof -
  from assms(3-5) have "drive_numbers routes = Some (0, metres / 1000)"
    unfolding drive_numbers_def by simp
  with assms(2)
  have some: "get_drive_time directions (snd u, fst u)
                (longitude (fst row), latitude (fst row)) user_api_key
              = Some (0, metres / 1000)"
    unfolding get_drive_time_def by simp
  with assms(1) have "drive_lookup directions user_api_key u row = Some (0, metres / 1000)"
    unfolding drive_lookup_def by simp
  then have "show_row directions user_api_key u row
               = \<lparr>card_row = row, card_metrics = StraightLine (geo_dist row)\<rparr>"
    unfolding show_row_def by simp
  with some show ?thesis by simp
qed

theorem zero_duration_shows_straight_line_witness:
  "get_drive_time (\<lambda>s e k. DirectionsJson (route_reply (JNum 0) (JNum 4500)))
       (3.89, 7.39) (Some 3.90, Some 7.40) ''key'' = Some (0, 4.5)
   \<and> show_row (\<lambda>s e k. DirectionsJson (route_reply (JNum 0) (JNum 4500)))
        ''key'' (7.39, 3.89) (clinic ''A'' ''Oyo'' (Some 7.40) (Some 3.90), 2)
       = \<lparr>card_row = (clinic ''A'' ''Oyo'' (Some 7.40) (Some 3.90), 2),
          card_metrics = StraightLine 2\<rparr>
   \<and> show_row (\<lambda>s e k. DirectionsJson (route_reply (JNum 600) (JNum 4500)))
        ''key'' (7.39, 3.89) (clinic ''A'' ''Oyo'' (Some 7.40) (Some 3.90), 2)
       = \<lparr>card_row = (clinic ''A'' ''Oyo'' (Some 7.40) (Some 3.90), 2),
          card_metrics = DriveMetrics 10 4.5\<rparr>"
proof -
  let ?summary = "JObj [(''distance'', JNum 4500), (''duration'', JNum 0)]"
  have summary: "route_summary (route_reply (JNum 0) (JNum 4500)) = Some ?summary"
    by (simp add: route_summary_def route_reply_def)
  have shown: "show_row (\<lambda>s e k. DirectionsJson (route_reply (JNum 600) (JNum 4500)))
        ''key'' (7.39, 3.89) (clinic ''A'' ''Oyo'' (Some 7.40) (Some 3.90), 2)
       = \<lparr>card_row = (clinic ''A'' ''Oyo'' (Some 7.40) (Some 3.90), 2),
          card_metrics = DriveMetrics 10 4.5\<rparr>"
    by (simp add: show_row_def drive_lookup_def get_drive_time_def drive_numbers_def
        route_summary_def route_reply_def)
  show ?thesis
    using summary shown
      zero_duration_shows_straight_line
        [of "''key''" "\<lambda>s e k. DirectionsJson (route_reply (JNum 0) (JNum 4500))"
            "(7.39, 3.89)" "(clinic ''A'' ''Oyo'' (Some 7.40) (Some 3.90), 2)"
            "route_reply (JNum 0) (JNum 4500)" ?summary 4500]
    by (simp add: geo_dist_def clinic_def)
qed

subsection \<open>Data loading\<close>

text \<open>
  C4. \<open>load_data\<close> keeps exactly the rows of the file in which latitude and longitude are
  both present, and yields the empty table when the file cannot be read; so every row the
  handler selects has both coordinates. The values themselves are not compared with any
  range.
\<close>

theorem load_data_coordinates_present:
  "(row \<in> set (load_data (Some df)) \<longleftrightarrow>
      row \<in> set df \<and> (\<exists>lat lon. latitude row = Some lat \<and> longitude row = Some lon))
   \<and> load_data None = []
   \<and> (row \<in> set (state_rows (load_data read_csv) region) \<longrightarrow>
        latitude row \<noteq> None \<and> longitude row \<noteq> None)"
proof -
  have kept: "row \<in> set (load_data (Some df)) \<longleftrightarrow>
      row \<in> set df \<and> (\<exists>lat lon. latitude row = Some lat \<and> longitude row = Some lon)"
    by (auto simp: load_data_def dropna_def)
  have failed: "load_data None = []"
    by (simp add: load_data_def)
  have "latitude row \<noteq> None \<and> longitude row \<noteq> None"
    if "row \<in> set (state_rows (load_data read_csv) region)"
  proof -
    from that have "row \<in> set (load_data read_csv)"
      by (simp add: state_rows_def)
    then show ?thesis
      by (cases read_csv) (simp_all add: load_data_def dropna_def)
  qed
  with kept failed show ?thesis by blast
qed

theorem load_data_coordinates_present_witness:
  "load_data (Some [clinic ''A'' ''Oyo'' None (Some 3.90),
                    clinic ''B'' ''Oyo'' (Some 200) (Some 3.85),
                    clinic ''C'' ''Oyo'' (Some 7.50) (Some 4.00)])
     = [clinic ''B'' ''Oyo'' (Some 200) (Some 3.85), clinic ''C'' ''Oyo'' (Some 7.50) (Some 4.00)]
   \<and> latitude (clinic ''C'' ''Oyo'' (Some 7.50) (Some 4.00)) \<noteq> None
   \<and> longitude (clinic ''C'' ''Oyo'' (Some 7.50) (Some 4.00)) \<noteq> None"
proof -
  have loaded: "load_data (Some [clinic ''A'' ''Oyo'' None (Some 3.90),
                    clinic ''B'' ''Oyo'' (Some 200) (Some 3.85),
                    clinic ''C'' ''Oyo'' (Some 7.50) (Some 4.00)])
     = [clinic ''B'' ''Oyo'' (Some 200) (Some 3.85), clinic ''C'' ''Oyo'' (Some 7.50) (Some 4.00)]"
    by (simp add: load_data_def dropna_def clinic_def del: not_None_eq)
  have "clinic ''C'' ''Oyo'' (Some 7.50) (Some 4.00)
          \<in> set (state_rows (load_data (Some [clinic ''C'' ''Oyo'' (Some 7.50) (Some 4.00)])) ''Oyo'')"
    by (simp add: state_rows_def load_data_def dropna_def clinic_def del: not_None_eq)
  with loaded show ?thesis
    using load_data_coordinates_present
      [of "clinic ''C'' ''Oyo'' (Some 7.50) (Some 4.00)"
          "[clinic ''C'' ''Oyo'' (Some 7.50) (Some 4.00)]"
          "Some [clinic ''C'' ''Oyo'' (Some 7.50) (Some 4.00)]" "''Oyo''"]
    by blast
qed

text \<open>A row with latitude 200 is loaded, although 200 is no latitude.\<close>

theorem load_data_out_of_range_counterexample:
  "clinic ''B'' ''Oyo'' (Some 200) (Some 3.85)
     \<in> set (load_data (Some [clinic ''B'' ''Oyo'' (Some 200) (Some 3.85)]))
   \<and> \<not> valid_coordinates (clinic ''B'' ''Oyo'' (Some 200) (Some 3.85))"
  by (simp add: load_data_def dropna_def clinic_def valid_coordinates_def del: not_None_eq)

subsection \<open>Ranking\<close>


lemma geodesic_km_Some_iff:
  "geodesic_km geodesic u (latitude row, longitude row) = Some km \<longleftrightarrow>
     accepted_latitude (fst u) \<and> accepted_row row
     \<and> (\<exists>lat lon. latitude row = Some lat \<and> longitude row = Some lon
            \<and> km = geodesic u (lat, lon))"
  unfolding geodesic_km_def accepted_row_def by (auto split: option.splits)



lemma mset_sort_values: "mset (sort_values tie df) = mset df"
  unfolding sort_values_def by simp

lemma sorted_sort_values: "sorted (map geo_dist (sort_values tie df))"
proof -
  let ?key = "\<lambda>row. (geo_dist row, tie df row)"
  have "sorted (map ?key (sort_values tie df))"
    unfolding sort_values_def by (rule sorted_sort_key)
  then have "sorted_wrt (\<lambda>a b. ?key a \<le> ?key b) (sort_values tie df)"
    by (simp add: sorted_wrt_map)
  then have "sorted_wrt (\<lambda>a b. geo_dist a \<le> geo_dist b) (sort_values tie df)"
    by (rule sorted_wrt_mono_rel [rotated]) auto
  then show ?thesis by (simp add: sorted_wrt_map)
qed




subsection \<open>Rows at equal distance\<close>

text \<open>
  The order among rows at equal distance is the sorting routine's: on two candidates at
  equal distance one ranking of the rows keeps the order of the table and another
  reverses it. When no two distances are equal the ranking of the rows does not matter.
\<close>

lemma equal_distance_two_orders:
  "top_5 (\<lambda>df row. 0) sample_geodesic (7, 4)
        [clinic ''A'' ''Oyo'' (Some 7) (Some 3), clinic ''B'' ''Oyo'' (Some 7) (Some 5)]
     = Some [(clinic ''A'' ''Oyo'' (Some 7) (Some 3), 1),
             (clinic ''B'' ''Oyo'' (Some 7) (Some 5), 1)]
   \<and> top_5 (\<lambda>df row. if facility_name (fst row) = Some ''A'' then 1 else 0)
        sample_geodesic (7, 4)
        [clinic ''A'' ''Oyo'' (Some 7) (Some 3), clinic ''B'' ''Oyo'' (Some 7) (Some 5)]
     = Some [(clinic ''B'' ''Oyo'' (Some 7) (Some 5), 1),
             (clinic ''A'' ''Oyo'' (Some 7) (Some 3), 1)]"
  by (simp add: top_5_def geodesic_km_def accepted_latitude_def sort_values_def
      sample_geodesic_def clinic_def geo_dist_def)

lemma distinct_distances_one_order:
  assumes "distinct (map geo_dist df)"
  shows "sort_values tie df = sort_key geo_dist df"
proof (rule map_sorted_distinct_set_unique [where f = geo_dist])
  have "set (sort_values tie df) = set df"
    by (metis mset_sort_values set_mset_mset)
  then show "set (sort_values tie df) = set (sort_key geo_dist df)" by simp
  then show "inj_on geo_dist (set (sort_values tie df) \<union> set (sort_key geo_dist df))"
    using assms by (simp add: distinct_map)
  show "sorted (map geo_dist (sort_values tie df))" by (rule sorted_sort_values)
  show "sorted (map geo_dist (sort_key geo_dist df))" by (rule sorted_sort_key)
  have "mset (map geo_dist (sort_values tie df)) = mset (map geo_dist df)"
    by (simp add: mset_sort_values)
  then show "distinct (map geo_dist (sort_values tie df))"
    using assms by (metis mset_eq_imp_distinct_iff)
  show "distinct (map geo_dist (sort_key geo_dist df))"
    using assms by (simp add: distinct_map)
qed

end
